theory Spec2Isabelle
  imports Main
begin

section \<open>JavaScript strings and sets\<close>

text \<open>
  The string methods that \<^verbatim>\<open>FeatureGate._matchWildcard\<close> calls, on strings as lists
  of characters. \<^verbatim>\<open>slice\<close> follows the JavaScript rule for negative and
  out-of-range indices.
\<close>

definition endsWith :: "string \<Rightarrow> string \<Rightarrow> bool" where
  "endsWith s suffix =
     (length suffix \<le> length s \<and> drop (length s - length suffix) s = suffix)"

definition startsWith :: "string \<Rightarrow> string \<Rightarrow> bool" where
  "startsWith s p = (take (length p) s = p)"

definition slice :: "string \<Rightarrow> int \<Rightarrow> int \<Rightarrow> string" where
  "slice s b e =
     (let n = int (length s);
          from = (if b < 0 then max (n + b) 0 else min b n);
          to = (if e < 0 then max (n + e) 0 else min e n)
      in take (nat (to - from)) (drop (nat from) s))"

text \<open>
  A JavaScript \<^verbatim>\<open>Set\<close> built from an array keeps the first occurrence of each
  element, in insertion order.
\<close>

definition set_add :: "'a list \<Rightarrow> 'a \<Rightarrow> 'a list" where
  "set_add s x = (if x \<in> set s then s else s @ [x])"

definition new_Set :: "'a list \<Rightarrow> 'a list" where
  "new_Set xs = foldl set_add [] xs"

definition has :: "'a list \<Rightarrow> 'a \<Rightarrow> bool" where
  "has s x = (x \<in> set s)"

section \<open>The license record\<close>

text \<open>
  The object that \<^verbatim>\<open>activateAction\<close> builds and the cache holds. Timestamps are
  milliseconds since the epoch (what \<^verbatim>\<open>new Date(s).getTime()\<close> gives for the stored
  ISO string); a field that the object does not have is \<open>None\<close>.
\<close>

record LicenseRecord =
  key :: string
  activatedAt :: "int option"
  expiresAt :: "int option"
  features :: "string list option"
  seats :: "(int \<times> int) option"
  cacheValidDays :: "int option"
  gracePeriodDays :: "int option"
  lastValidated :: "int option"

section \<open>FeatureGate\<close>

record FeatureGate =
  gate_cache :: "LicenseRecord option"
  gate_features :: "string list"

text \<open>The constructor: \<^verbatim>\<open>_cache = null\<close>, \<^verbatim>\<open>_features = new Set()\<close>.\<close>

definition new_FeatureGate :: FeatureGate where
  "new_FeatureGate = \<lparr>gate_cache = None, gate_features = []\<rparr>"

text \<open>A gate that holds the snapshot \<open>c\<close> with the feature set \<open>fs\<close>.\<close>

definition holding :: "LicenseRecord \<Rightarrow> string list \<Rightarrow> FeatureGate" where
  "holding c fs = \<lparr>gate_cache = Some c, gate_features = fs\<rparr>"

text \<open>
  \<^verbatim>\<open>_loadCache\<close>. The predicates \<^verbatim>\<open>isExpired\<close> and \<^verbatim>\<open>isInGracePeriod\<close> come from
  the license-cache module and read the clock themselves; here they are parameters and
  the clock reading \<open>now\<close> is passed to them. The argument \<open>disk\<close> is what
  \<^verbatim>\<open>readLicenseCache()\<close> returns. The console warning of the grace branch is left out.
\<close>

definition loadCache ::
  "(LicenseRecord \<Rightarrow> int \<Rightarrow> bool) \<Rightarrow> (LicenseRecord \<Rightarrow> int \<Rightarrow> bool) \<Rightarrow> int
     \<Rightarrow> LicenseRecord option \<Rightarrow> FeatureGate \<Rightarrow> FeatureGate" where
  "loadCache isExp inGrace now disk g =
     (case disk of
        None \<Rightarrow> g\<lparr>gate_cache := None, gate_features := new_Set []\<rparr>
      | Some cache \<Rightarrow>
          if \<not> isExp cache now then
            g\<lparr>gate_cache := Some cache,
              gate_features := new_Set (case features cache of None \<Rightarrow> [] | Some fs \<Rightarrow> fs)\<rparr>
          else if inGrace cache now then
            g\<lparr>gate_cache := Some cache,
              gate_features := new_Set (case features cache of None \<Rightarrow> [] | Some fs \<Rightarrow> fs)\<rparr>
          else g\<lparr>gate_cache := None, gate_features := new_Set []\<rparr>)"

text \<open>\<^verbatim>\<open>_matchWildcard\<close>: the loop over the set, leaving at the first match.\<close>

fun matchWildcard_loop :: "string list \<Rightarrow> string \<Rightarrow> bool" where
  "matchWildcard_loop [] featureId = False"
| "matchWildcard_loop (f # fs) featureId =
     (if endsWith f ''.*'' then
        (if startsWith featureId (slice f 0 (- 1)) then True
         else matchWildcard_loop fs featureId)
      else matchWildcard_loop fs featureId)"

definition matchWildcard :: "FeatureGate \<Rightarrow> string \<Rightarrow> bool" where
  "matchWildcard g featureId = matchWildcard_loop (gate_features g) featureId"

text \<open>
  \<^verbatim>\<open>isAvailable\<close> loads only when no snapshot is held, then answers from the in-memory
  feature set. It returns the answer and the gate as the call leaves it.
\<close>

definition isAvailable ::
  "(LicenseRecord \<Rightarrow> int \<Rightarrow> bool) \<Rightarrow> (LicenseRecord \<Rightarrow> int \<Rightarrow> bool) \<Rightarrow> int
     \<Rightarrow> LicenseRecord option \<Rightarrow> FeatureGate \<Rightarrow> string \<Rightarrow> bool \<times> FeatureGate" where
  "isAvailable isExp inGrace now disk g featureId =
     (let g' = (if gate_cache g = None then loadCache isExp inGrace now disk g else g)
      in (has (gate_features g') featureId \<or> matchWildcard g' featureId, g'))"

text \<open>
  The wildcard rule in the specification's words: a grant ending in the wildcard suffix
  matches the feature IDs that start with the grant minus its last character; any other
  grant matches itself only.
\<close>

definition spec_grantMatches :: "string \<Rightarrow> string \<Rightarrow> bool" where
  "spec_grantMatches grant featureId =
     (if endsWith grant ''.*'' then startsWith featureId (butlast grant)
      else featureId = grant)"

section \<open>The license-cache module\<close>

text \<open>
  The module \<^verbatim>\<open>pro/license/license-cache\<close> is loaded by name and its code is not
  part of the command module. The definitions of this section stand for it.
\<close>

definition day_ms :: int where
  "day_ms = 24 * 60 * 60 * 1000"

text \<open>
  Modelled from the spec: the expiry boundary of the license-cache module, which is
  missing. The offline clock starts at \<open>lastValidated\<close> when the record has it and at
  \<open>activatedAt\<close> otherwise; a missing \<open>cacheValidDays\<close> counts as 30. A record with
  neither timestamp has no boundary.
\<close>

definition spec_expiryBoundary :: "LicenseRecord \<Rightarrow> int option" where
  "spec_expiryBoundary r =
     (let days = (case cacheValidDays r of None \<Rightarrow> 30 | Some d \<Rightarrow> d)
      in case lastValidated r of
           Some t \<Rightarrow> Some (t + days * day_ms)
         | None \<Rightarrow> (case activatedAt r of
                      Some t \<Rightarrow> Some (t + days * day_ms)
                    | None \<Rightarrow> None))"

text \<open>
  Modelled from the spec: \<^verbatim>\<open>isExpired(record, now)\<close> of the missing license-cache
  module, true when \<open>now\<close> is past the expiry boundary. A record without a boundary
  counts as expired.
\<close>

definition spec_isExpired :: "LicenseRecord \<Rightarrow> int \<Rightarrow> bool" where
  "spec_isExpired r now =
     (case spec_expiryBoundary r of None \<Rightarrow> True | Some e \<Rightarrow> e < now)"

text \<open>
  Modelled from the spec: \<^verbatim>\<open>isInGracePeriod(record, now)\<close> of the missing
  license-cache module, true when the record is expired and \<open>now\<close> is at most the
  boundary plus \<open>gracePeriodDays\<close> (7 when missing).
\<close>

definition spec_isInGracePeriod :: "LicenseRecord \<Rightarrow> int \<Rightarrow> bool" where
  "spec_isInGracePeriod r now =
     (case spec_expiryBoundary r of
        None \<Rightarrow> False
      | Some e \<Rightarrow>
          e < now \<and> now \<le> e + (case gracePeriodDays r of None \<Rightarrow> 7 | Some d \<Rightarrow> d) * day_ms)"

text \<open>
  Modelled from the spec: \<^verbatim>\<open>daysRemaining(record, now)\<close> of the missing license-cache
  module, the signed number of days up to the expiry boundary, rounded up.
\<close>

definition spec_daysRemaining :: "LicenseRecord \<Rightarrow> int \<Rightarrow> int option" where
  "spec_daysRemaining r now =
     (case spec_expiryBoundary r of
        None \<Rightarrow> None
      | Some e \<Rightarrow> Some (- ((- (e - now)) div day_ms)))"

section \<open>The license state\<close>

datatype LicenseState = NotActivated | Active | Grace | Expired

text \<open>
  Modelled from the spec: \<^verbatim>\<open>getLicenseState\<close>, which the FeatureGate class of the
  source does not define. The state is computed from the cache and the clock with the
  same two predicates that \<^verbatim>\<open>_loadCache\<close> calls.
\<close>

definition spec_licenseState ::
  "(LicenseRecord \<Rightarrow> int \<Rightarrow> bool) \<Rightarrow> (LicenseRecord \<Rightarrow> int \<Rightarrow> bool) \<Rightarrow> int
     \<Rightarrow> LicenseRecord option \<Rightarrow> LicenseState" where
  "spec_licenseState isExp inGrace now disk =
     (case disk of
        None \<Rightarrow> NotActivated
      | Some cache \<Rightarrow>
          if \<not> isExp cache now then Active
          else if inGrace cache now then Grace
          else Expired)"

text \<open>
  Modelled from the spec: \<^verbatim>\<open>reload()\<close>, which the FeatureGate class of the source
  does not define. It drops the snapshot, so that the next decision loads from storage.
\<close>

definition reload :: "FeatureGate \<Rightarrow> FeatureGate" where
  "reload g = g\<lparr>gate_cache := None, gate_features := new_Set []\<rparr>"

section \<open>The state of the machine and the collaborators of one command\<close>

text \<open>
  What the commands read and change: the readable content of the cache file, the
  pending-deactivation slot (key and time), and the feature gate of the process.
\<close>

record World =
  disk_cache :: "LicenseRecord option"
  pending :: "(string \<times> int) option"
  gate :: FeatureGate

datatype Failure = LicenseActivationError string string | Error string

text \<open>The body of a \<^verbatim>\<open>licenseApi.validate\<close> response.\<close>

record ValidateResult =
  valid :: bool
  v_features :: "string list option"
  v_seats :: "(int \<times> int) option"
  v_expiresAt :: "int option"
  v_cacheValidDays :: "int option"
  v_gracePeriodDays :: "int option"

text \<open>
  What one invocation of a command gets from outside: the key validator and the machine
  identity of the license-crypto module, the core version, the authority's answer to each
  call (\<open>Inl\<close> is a rejected promise), whether the cache write fails, the clock, and the
  user's answer to the confirmation prompt.
\<close>

record Host =
  validateKeyFormat :: "string \<Rightarrow> bool"
  machineId :: string
  aiosCoreVersion :: string
  activate_response :: "Failure + LicenseRecord"
  validate_response :: "Failure + ValidateResult"
  isOnline_response :: "Failure + bool"
  deactivate_response :: "Failure + unit"
  write_error :: "string option"
  clock :: int
  confirm_answer :: bool

text \<open>
  The console output is kept as one tag for each block of lines; the calls to the
  authority, to the cache and to the gate are kept with their arguments.
\<close>

datatype Notice =
    KeyRequired | InvalidKeyFormat | Activating | ActivatedBanner
  | CacheSaveWarning string | ActivationFailed Failure
  | NoLicense | DeactivationSummary | DeactivationCancelled | Deactivating
  | DeactivatedOnline | ServerUnreachable Failure | OfflineNotice | DataPreserved
  | DeactivationError Failure
  | Validating | ValidationRejected | CacheUpdateWarning string | ValidatedBanner
  | ValidationFailed Failure

datatype Event =
    Console Notice
  | Confirm
  | ApiActivate string string string
  | ApiValidate string string
  | ApiDeactivate string string
  | ApiIsOnline
  | WriteCache LicenseRecord
  | DeleteCache
  | SetPending string
  | GateReload

datatype Outcome = Returned | Exited int

type_synonym Run = "Outcome \<times> Event list \<times> World"

definition outcome_of :: "Run \<Rightarrow> Outcome" where
  "outcome_of r = fst r"

definition trace_of :: "Run \<Rightarrow> Event list" where
  "trace_of r = fst (snd r)"

definition world_of :: "Run \<Rightarrow> World" where
  "world_of r = snd (snd r)"

text \<open>
  Modelled from the spec: \<^verbatim>\<open>readLicenseCache\<close> of the missing license-cache module;
  it returns the record, or null when there is no readable cache.
\<close>

definition readLicenseCache :: "World \<Rightarrow> LicenseRecord option" where
  "readLicenseCache w = disk_cache w"

text \<open>
  Modelled from the spec: \<^verbatim>\<open>writeLicenseCache\<close> of the missing license-cache module.
  The write is atomic and never raises: on an I/O error the file stays as it was and the
  error is returned.
\<close>

definition writeLicenseCache :: "Host \<Rightarrow> LicenseRecord \<Rightarrow> World \<Rightarrow> string option \<times> World" where
  "writeLicenseCache h r w =
     (case write_error h of
        None \<Rightarrow> (None, w\<lparr>disk_cache := Some r\<rparr>)
      | Some e \<Rightarrow> (Some e, w))"

text \<open>
  Modelled from the spec: \<^verbatim>\<open>deleteLicenseCache\<close> of the missing license-cache
  module; it removes the cache file and leaves the pending slot alone.
\<close>

definition deleteLicenseCache :: "World \<Rightarrow> World" where
  "deleteLicenseCache w = w\<lparr>disk_cache := None\<rparr>"

text \<open>
  Modelled from the spec: \<^verbatim>\<open>setPendingDeactivation\<close> of the missing license-cache
  module; the slot holds one key and the time it was set.
\<close>

definition setPendingDeactivation :: "Host \<Rightarrow> string \<Rightarrow> World \<Rightarrow> World" where
  "setPendingDeactivation h k w = w\<lparr>pending := Some (k, clock h)\<rparr>"

text \<open>
  Modelled from the spec: \<^verbatim>\<open>hasPendingDeactivation\<close> of the missing license-cache
  module; it returns the flag and, when set, the key.
\<close>

definition hasPendingDeactivation :: "World \<Rightarrow> bool \<times> string option" where
  "hasPendingDeactivation w =
     (case pending w of None \<Rightarrow> (False, None) | Some (k, t) \<Rightarrow> (True, Some k))"

text \<open>The pieces of a license key: alphanumeric characters, split at a separator.\<close>

definition alphanumeric :: "char \<Rightarrow> bool" where
  "alphanumeric c =
     (c \<in> set ''ABCDEFGHIJKLMNOPQRSTUVWXYZabcdefghijklmnopqrstuvwxyz0123456789'')"

fun splitOn :: "char \<Rightarrow> string \<Rightarrow> string list" where
  "splitOn d [] = [[]]"
| "splitOn d (c # cs) =
     (if c = d then [] # splitOn d cs
      else (case splitOn d cs of [] \<Rightarrow> [[c]] | g # gs \<Rightarrow> (c # g) # gs))"

definition key_group :: "string \<Rightarrow> bool" where
  "key_group g = (length g = 4 \<and> list_all alphanumeric g)"

text \<open>
  Modelled from the spec: \<^verbatim>\<open>validateKeyFormat\<close> of the missing license-crypto
  module; the prefix \<^verbatim>\<open>PRO\<close> and four groups of four alphanumeric characters, joined
  by dashes.
\<close>

definition spec_validateKeyFormat :: "string \<Rightarrow> bool" where
  "spec_validateKeyFormat k =
     (case splitOn (CHR ''-'') k of
        [p, a, b, c, d] \<Rightarrow>
          p = ''PRO'' \<and> key_group a \<and> key_group b \<and> key_group c \<and> key_group d
      | _ \<Rightarrow> False)"

section \<open>The commands\<close>

text \<open>
  \<^verbatim>\<open>activateAction\<close>. \<open>opt_key\<close> is \<^verbatim>\<open>options.key\<close>; a missing key and the empty
  string are both falsy. \<^verbatim>\<open>process.exit(1)\<close> ends the run with \<open>Exited 1\<close>. After the
  gate is reloaded the success block reads \<^verbatim>\<open>result.features.join\<close> and
  \<^verbatim>\<open>result.seats.used\<close>, which throw when the answer lacks the field; the handler then
  exits.
\<close>

definition activateAction :: "Host \<Rightarrow> string option \<Rightarrow> World \<Rightarrow> Run" where
  "activateAction h opt_key w =
     (case opt_key of
        None \<Rightarrow> (Exited 1, [Console KeyRequired], w)
      | Some k \<Rightarrow>
          if k = [] then (Exited 1, [Console KeyRequired], w)
          else if \<not> validateKeyFormat h k then (Exited 1, [Console InvalidKeyFormat], w)
          else
            (case activate_response h of
               Inl e \<Rightarrow>
                 (Exited 1,
                  [Console Activating, ApiActivate k (machineId h) (aiosCoreVersion h),
                   Console (ActivationFailed e)], w)
             | Inr result \<Rightarrow>
                 (let cacheData =
                        \<lparr>key = key result, activatedAt = activatedAt result,
                         expiresAt = expiresAt result, features = features result,
                         seats = seats result, cacheValidDays = cacheValidDays result,
                         gracePeriodDays = gracePeriodDays result, lastValidated = None\<rparr>;
                      (writeResult, w1) = writeLicenseCache h cacheData w;
                      w2 = w1\<lparr>gate := reload (gate w1)\<rparr>;
                      tr = [Console Activating,
                            ApiActivate k (machineId h) (aiosCoreVersion h),
                            WriteCache cacheData]
                           @ (case writeResult of
                                None \<Rightarrow> []
                              | Some e \<Rightarrow> [Console (CacheSaveWarning e)])
                           @ [GateReload, Console ActivatedBanner]
                  in if features result = None \<or> seats result = None then
                       (Exited 1, tr @ [Console (ActivationFailed (Error ''TypeError''))], w2)
                     else (Returned, tr, w2))))"

text \<open>
  \<^verbatim>\<open>deactivateAction\<close>. \<open>force\<close> is \<^verbatim>\<open>options.force\<close>. A failure of the
  connectivity probe itself reaches the outer handler, which exits.
\<close>

definition deactivateAction :: "Host \<Rightarrow> bool \<Rightarrow> World \<Rightarrow> Run" where
  "deactivateAction h force w =
     (case readLicenseCache w of
        None \<Rightarrow> (Returned, [Console NoLicense], w)
      | Some cache \<Rightarrow>
          (let asked = (if force then [] else [Console DeactivationSummary, Confirm])
           in if (if force then False else \<not> confirm_answer h) then
                (Returned, asked @ [Console DeactivationCancelled], w)
              else
                (case isOnline_response h of
                   Inl e \<Rightarrow>
                     (Exited 1,
                      asked @ [Console Deactivating, ApiIsOnline, Console (DeactivationError e)],
                      w)
                 | Inr isOnline \<Rightarrow>
                     (let (tr1, w1) =
                            (if isOnline then
                               (case deactivate_response h of
                                  Inr u \<Rightarrow>
                                    ([ApiIsOnline, ApiDeactivate (key cache) (machineId h),
                                      Console DeactivatedOnline], w)
                                | Inl e \<Rightarrow>
                                    ([ApiIsOnline, ApiDeactivate (key cache) (machineId h),
                                      Console (ServerUnreachable e), SetPending (key cache)],
                                     setPendingDeactivation h (key cache) w))
                             else
                               ([ApiIsOnline, Console OfflineNotice, SetPending (key cache)],
                                setPendingDeactivation h (key cache) w));
                          w2 = deleteLicenseCache w1;
                          w3 = w2\<lparr>gate := reload (gate w2)\<rparr>
                      in (Returned,
                          asked @ [Console Deactivating] @ tr1
                            @ [DeleteCache, GateReload, Console DataPreserved],
                          w3)))))"

text \<open>
  \<^verbatim>\<open>validateAction\<close>. The refreshed record is the cached one with six fields
  replaced; \<open>lastValidated\<close> is the clock reading. As in \<^verbatim>\<open>activateAction\<close>, the
  success block throws when the answer has no features or no seats.
\<close>

definition validateAction :: "Host \<Rightarrow> World \<Rightarrow> Run" where
  "validateAction h w =
     (case readLicenseCache w of
        None \<Rightarrow> (Returned, [Console Validating, Console NoLicense], w)
      | Some cache \<Rightarrow>
          (case validate_response h of
             Inl e \<Rightarrow>
               (Exited 1,
                [Console Validating, ApiValidate (key cache) (machineId h),
                 Console (ValidationFailed e)], w)
           | Inr result \<Rightarrow>
               if \<not> valid result then
                 (Returned,
                  [Console Validating, ApiValidate (key cache) (machineId h),
                   Console ValidationRejected], w)
               else
                 (let updatedCache =
                        cache\<lparr>features := v_features result, seats := v_seats result,
                              expiresAt := v_expiresAt result,
                              cacheValidDays := v_cacheValidDays result,
                              gracePeriodDays := v_gracePeriodDays result,
                              lastValidated := Some (clock h)\<rparr>;
                      (writeResult, w1) = writeLicenseCache h updatedCache w;
                      w2 = w1\<lparr>gate := reload (gate w1)\<rparr>;
                      tr = [Console Validating, ApiValidate (key cache) (machineId h),
                            WriteCache updatedCache]
                           @ (case writeResult of
                                None \<Rightarrow> []
                              | Some e \<Rightarrow> [Console (CacheUpdateWarning e)])
                           @ [GateReload, Console ValidatedBanner]
                  in if v_features result = None \<or> v_seats result = None then
                       (Exited 1, tr @ [Console (ValidationFailed (Error ''TypeError''))], w2)
                     else (Returned, tr, w2))))"

text \<open>
  The cache-validity block of \<^verbatim>\<open>statusAction\<close>: nothing is printed without
  \<open>activatedAt\<close>; \<^verbatim>\<open>cacheValidDays || 30\<close> replaces a missing or zero value;
  \<^verbatim>\<open>Math.ceil\<close> of the quotient is the integer ceiling.
\<close>

datatype CacheLine = ValidUntil int int | ExpiredOn int

definition or_default :: "int option \<Rightarrow> int \<Rightarrow> int" where
  "or_default x d = (case x of None \<Rightarrow> d | Some v \<Rightarrow> if v = 0 then d else v)"

definition status_expiryDate :: "LicenseRecord \<Rightarrow> int option" where
  "status_expiryDate cache =
     (case activatedAt cache of
        None \<Rightarrow> None
      | Some activatedDate \<Rightarrow>
          Some (activatedDate + or_default (cacheValidDays cache) 30 * 24 * 60 * 60 * 1000))"

definition status_cacheLine :: "LicenseRecord \<Rightarrow> int \<Rightarrow> CacheLine option" where
  "status_cacheLine cache now =
     (case status_expiryDate cache of
        None \<Rightarrow> None
      | Some expiryDate \<Rightarrow>
          (let daysRemaining = - ((- (expiryDate - now)) div (24 * 60 * 60 * 1000))
           in if 0 < daysRemaining then Some (ValidUntil expiryDate daysRemaining)
              else Some (ExpiredOn expiryDate)))"

section \<open>Traces\<close>

text \<open>The records handed to \<^verbatim>\<open>writeLicenseCache\<close> during a run, in order.\<close>

fun written :: "Event list \<Rightarrow> LicenseRecord list" where
  "written [] = []"
| "written (WriteCache r # es) = r # written es"
| "written (e # es) = written es"

text \<open>The calls that go to the license authority.\<close>

fun is_authority_call :: "Event \<Rightarrow> bool" where
  "is_authority_call (ApiActivate k m v) = True"
| "is_authority_call (ApiValidate k m) = True"
| "is_authority_call (ApiDeactivate k m) = True"
| "is_authority_call ApiIsOnline = True"
| "is_authority_call e = False"

fun is_cache_mutation :: "Event \<Rightarrow> bool" where
  "is_cache_mutation (WriteCache r) = True"
| "is_cache_mutation DeleteCache = True"
| "is_cache_mutation e = False"

text \<open>Every write or delete of the cache has a gate reload later in the trace.\<close>

fun reload_follows :: "Event list \<Rightarrow> bool" where
  "reload_follows [] = True"
| "reload_follows (e # es) =
     ((if is_cache_mutation e then GateReload \<in> set es else True) \<and> reload_follows es)"

section \<open>The command line\<close>

text \<open>
  The subcommands that \<^verbatim>\<open>createProCommand\<close> registers and that touch the license.
  Each invocation is a process of its own: it starts with a gate that holds no snapshot.
\<close>

datatype Command = Activate "string option" | Deactivate bool | Validate

fun run_command :: "Host \<Rightarrow> Command \<Rightarrow> World \<Rightarrow> Run" where
  "run_command h (Activate opt_key) w = activateAction h opt_key w"
| "run_command h (Deactivate force) w = deactivateAction h force w"
| "run_command h Validate w = validateAction h w"


definition mutates_cache :: "Event list \<Rightarrow> bool" where
  "mutates_cache tr = list_ex is_cache_mutation tr"

text \<open>\<open>a\<close> is no later than \<open>b\<close>, an absent \<open>lastValidated\<close> being the earliest.\<close>

fun not_later :: "int option \<Rightarrow> int option \<Rightarrow> bool" where
  "not_later None b = True"
| "not_later (Some s) None = False"
| "not_later (Some s) (Some t) = (s \<le> t)"

definition lastValidated_on_disk :: "World \<Rightarrow> int option" where
  "lastValidated_on_disk w =
     (case disk_cache w of None \<Rightarrow> None | Some c \<Rightarrow> lastValidated c)"

section \<open>Concrete inputs\<close>

definition ex_record :: LicenseRecord where
  "ex_record =
     \<lparr>key = ''PRO-AB12-CD34-EF56-GH78'', activatedAt = Some 0,
      expiresAt = Some (365 * day_ms), features = Some [''pro.squads.*'', ''pro.cli.analytics''],
      seats = Some (1, 5), cacheValidDays = Some 30, gracePeriodDays = Some 7,
      lastValidated = None\<rparr>"

definition ex_validate_ok :: ValidateResult where
  "ex_validate_ok =
     \<lparr>valid = True, v_features = Some [''pro.squads.*''], v_seats = Some (1, 5),
      v_expiresAt = Some (365 * day_ms), v_cacheValidDays = Some 30,
      v_gracePeriodDays = Some 7\<rparr>"

definition ex_validate_rejected :: ValidateResult where
  "ex_validate_rejected =
     \<lparr>valid = False, v_features = None, v_seats = None, v_expiresAt = None,
      v_cacheValidDays = None, v_gracePeriodDays = None\<rparr>"

text \<open>A reachable authority that accepts every request, at day 40 after the epoch.\<close>

definition ex_host :: Host where
  "ex_host =
     \<lparr>validateKeyFormat = spec_validateKeyFormat, machineId = ''machine-1'',
      aiosCoreVersion = ''4.2.0'', activate_response = Inr ex_record,
      validate_response = Inr ex_validate_ok, isOnline_response = Inr True,
      deactivate_response = Inr (), write_error = None, clock = 40 * day_ms,
      confirm_answer = True\<rparr>"

definition ex_host_offline :: Host where
  "ex_host_offline = ex_host\<lparr>isOnline_response := Inr False\<rparr>"

definition ex_host_rejecting :: Host where
  "ex_host_rejecting = ex_host\<lparr>validate_response := Inr ex_validate_rejected\<rparr>"

definition ex_world :: World where
  "ex_world = \<lparr>disk_cache = Some ex_record, pending = None, gate = new_FeatureGate\<rparr>"

definition ex_world_empty :: World where
  "ex_world_empty = \<lparr>disk_cache = None, pending = None, gate = new_FeatureGate\<rparr>"

text \<open>The record of \<open>ex_record\<close> after the revalidation of day 40.\<close>

definition ex_revalidated :: LicenseRecord where
  "ex_revalidated =
     ex_record\<lparr>features := Some [''pro.squads.*''], lastValidated := Some (40 * day_ms)\<rparr>"



section \<open>Auxiliary facts\<close>

lemma slice_drop_last: "slice f 0 (- 1) = butlast f"
  by (cases "f = []") (simp_all add: slice_def butlast_conv_take nat_diff_distrib' Let_def)

lemma startsWith_self_prefix: "startsWith f (butlast f)"
  by (simp add: startsWith_def butlast_conv_take)

lemma matchWildcard_loop_iff:
  "matchWildcard_loop fs featureId =
     (\<exists>f \<in> set fs. endsWith f ''.*'' \<and> startsWith featureId (butlast f))"
  by (induction fs) (auto simp: slice_drop_last)

lemma answer_iff_grant:
  "(has fs featureId \<or> matchWildcard_loop fs featureId) =
     (\<exists>f \<in> set fs. spec_grantMatches f featureId)"
  unfolding matchWildcard_loop_iff has_def spec_grantMatches_def
  using startsWith_self_prefix by (auto split: if_splits)

lemma set_new_Set_aux: "set (foldl set_add acc xs) = set acc \<union> set xs"
  by (induction xs arbitrary: acc) (auto simp: set_add_def)

lemma set_new_Set: "set (new_Set xs) = set xs"
  by (simp add: new_Set_def set_new_Set_aux)

lemma written_append: "written (xs @ ys) = written xs @ written ys"
  by (induction xs rule: written.induct) simp_all

lemma loadCache_ignores_gate:
  "loadCache isExp inGrace now disk g = loadCache isExp inGrace now disk g'"
  by (cases g, cases g') (simp add: loadCache_def split: option.splits)

lemma isAvailable_no_snapshot:
  assumes "gate_cache g = None"
  shows "isAvailable isExp inGrace now disk g featureId =
           isAvailable isExp inGrace now disk new_FeatureGate featureId"
  using assms loadCache_ignores_gate [of isExp inGrace now disk g new_FeatureGate]
  by (simp add: isAvailable_def new_FeatureGate_def)

lemma activate_reloads:
  "reload_follows (trace_of (activateAction h opt_key w))
   \<and> (mutates_cache (trace_of (activateAction h opt_key w)) \<longrightarrow>
        GateReload \<in> set (trace_of (activateAction h opt_key w))
        \<and> gate_cache (gate (world_of (activateAction h opt_key w))) = None)"
  by (simp add: activateAction_def writeLicenseCache_def reload_def trace_of_def world_of_def
      Let_def mutates_cache_def split: option.splits sum.splits prod.splits)

lemma deactivate_reloads:
  "reload_follows (trace_of (deactivateAction h force w))
   \<and> (mutates_cache (trace_of (deactivateAction h force w)) \<longrightarrow>
        GateReload \<in> set (trace_of (deactivateAction h force w))
        \<and> gate_cache (gate (world_of (deactivateAction h force w))) = None)"
  by (simp add: deactivateAction_def readLicenseCache_def deleteLicenseCache_def
      setPendingDeactivation_def reload_def trace_of_def world_of_def Let_def mutates_cache_def
      split: option.splits sum.splits prod.splits)

lemma validate_reloads:
  "reload_follows (trace_of (validateAction h w))
   \<and> (mutates_cache (trace_of (validateAction h w)) \<longrightarrow>
        GateReload \<in> set (trace_of (validateAction h w))
        \<and> gate_cache (gate (world_of (validateAction h w))) = None)"
  by (simp add: validateAction_def readLicenseCache_def writeLicenseCache_def reload_def
      trace_of_def world_of_def Let_def mutates_cache_def split: option.splits sum.splits
      prod.splits)

section \<open>The claims\<close>

text \<open>
  Claim C1 fails for a gate that already holds a snapshot: a gate that loaded the record
  on day 1 still answers true on day 40, when the state computed from the same cache is
  Expired, and still answers true when the cache is gone and the state is NotActivated.
\<close>

theorem gating_denial_counterexample:
  "spec_licenseState spec_isExpired spec_isInGracePeriod (40 * day_ms) (Some ex_record)
     = Expired
   \<and> fst (isAvailable spec_isExpired spec_isInGracePeriod (40 * day_ms) (Some ex_record)
        (snd (isAvailable spec_isExpired spec_isInGracePeriod day_ms (Some ex_record)
                new_FeatureGate ''pro.squads.premium''))
        ''pro.squads.premium'')
   \<and> spec_licenseState spec_isExpired spec_isInGracePeriod day_ms None = NotActivated
   \<and> fst (isAvailable spec_isExpired spec_isInGracePeriod day_ms None
        (snd (isAvailable spec_isExpired spec_isInGracePeriod day_ms (Some ex_record)
                new_FeatureGate ''pro.squads.premium''))
        ''pro.squads.premium'')"
  by (simp add: spec_expiryBoundary_def spec_isExpired_def spec_isInGracePeriod_def
      spec_licenseState_def isAvailable_def loadCache_def matchWildcard_def has_def
      new_Set_def set_add_def endsWith_def startsWith_def slice_def ex_record_def
      new_FeatureGate_def day_ms_def)

text \<open>
  Claim C1, amended. When the gate holds no snapshot, \<^verbatim>\<open>isAvailable\<close> returns false for
  every feature ID whenever the state computed from the cache and the clock is
  NotActivated or Expired, whatever features the cache lists; and \<^verbatim>\<open>_loadCache\<close> leaves
  a non-empty feature set only when the cache is present and either not expired or
  within grace.
\<close>

theorem gating_denial_on_load:
  assumes "gate_cache g = None"
  shows
    "(spec_licenseState isExp inGrace now disk = NotActivated
        \<or> spec_licenseState isExp inGrace now disk = Expired
      \<longrightarrow> \<not> fst (isAvailable isExp inGrace now disk g featureId))
     \<and> (gate_features (loadCache isExp inGrace now disk g) \<noteq> []
        \<longrightarrow> (\<exists>c. disk = Some c \<and> (\<not> isExp c now \<or> inGrace c now)))"
  using assms
  by (auto simp: spec_licenseState_def isAvailable_def loadCache_def matchWildcard_def
      has_def new_Set_def split: option.splits if_splits)

theorem gating_denial_on_load_witness:
  "gate_cache new_FeatureGate = None
   \<and> spec_licenseState spec_isExpired spec_isInGracePeriod (40 * day_ms) (Some ex_record)
       = Expired
   \<and> \<not> fst (isAvailable spec_isExpired spec_isInGracePeriod (40 * day_ms)
              (Some ex_record) new_FeatureGate ''pro.squads.premium'')
   \<and> gate_features (loadCache spec_isExpired spec_isInGracePeriod day_ms (Some ex_record)
        new_FeatureGate) \<noteq> []
   \<and> \<not> spec_isExpired ex_record day_ms"
  using
    gating_denial_on_load [of new_FeatureGate spec_isExpired spec_isInGracePeriod
      "40 * day_ms" "Some ex_record" "''pro.squads.premium''"]
    gating_denial_on_load [of new_FeatureGate spec_isExpired spec_isInGracePeriod
      day_ms "Some ex_record" "''pro.squads.premium''"]
  by (simp add: spec_expiryBoundary_def spec_isExpired_def spec_isInGracePeriod_def
      spec_licenseState_def isAvailable_def loadCache_def matchWildcard_def has_def
      new_Set_def set_add_def endsWith_def startsWith_def slice_def ex_record_def
      new_FeatureGate_def day_ms_def)

text \<open>
  Claim C2. A gate that holds a snapshot answers true exactly when some grant of its
  feature set matches the feature ID by the specification's rule, and so does a gate
  that loads a usable cache. With one grant in the set: a grant ending in \<^verbatim>\<open>.*\<close>
  matches exactly the feature IDs that start with the grant minus the star, and any
  other grant matches the identical string only. The grant \<^verbatim>\<open>pro.squads.*\<close> makes
  \<^verbatim>\<open>pro.squads.premium\<close> available and \<^verbatim>\<open>pro.squadcraft\<close> unavailable.
\<close>

theorem wildcard_matching:
  "(gate_cache g \<noteq> None \<longrightarrow>
      fst (isAvailable isExp inGrace now disk g featureId) =
        (\<exists>f \<in> set (gate_features g). spec_grantMatches f featureId))
   \<and> (\<not> isExp c now \<or> inGrace c now \<longrightarrow> features c = Some fs \<longrightarrow>
        fst (isAvailable isExp inGrace now (Some c) new_FeatureGate featureId) =
          (\<exists>f \<in> set fs. spec_grantMatches f featureId))
   \<and> (endsWith grant ''.*'' \<longrightarrow>
        fst (isAvailable isExp inGrace now disk (holding c [grant]) featureId) =
          startsWith featureId (butlast grant))
   \<and> (\<not> endsWith grant ''.*'' \<longrightarrow>
        fst (isAvailable isExp inGrace now disk (holding c [grant]) featureId) =
          (featureId = grant))
   \<and> fst (isAvailable isExp inGrace now disk (holding c [''pro.squads.*''])
          ''pro.squads.premium'')
   \<and> \<not> fst (isAvailable isExp inGrace now disk (holding c [''pro.squads.*''])
            ''pro.squadcraft'')"
proof -
  have memo:
    "fst (isAvailable isExp inGrace now disk g' fid) =
       (\<exists>f \<in> set (gate_features g'). spec_grantMatches f fid)"
    if "gate_cache g' \<noteq> None" for g' fid
    using that answer_iff_grant [of "gate_features g'" fid]
    by (auto simp: isAvailable_def matchWildcard_def)
  have loaded:
    "fst (isAvailable isExp inGrace now (Some c) new_FeatureGate featureId) =
       (\<exists>f \<in> set fs. spec_grantMatches f featureId)"
    if "\<not> isExp c now \<or> inGrace c now" "features c = Some fs"
    using that answer_iff_grant [of "new_Set fs" featureId]
    by (auto simp: isAvailable_def matchWildcard_def loadCache_def new_FeatureGate_def
        set_new_Set Let_def)
  have one:
    "fst (isAvailable isExp inGrace now disk (holding c [gr]) fid) = spec_grantMatches gr fid"
    for gr fid
    using memo [of "holding c [gr]" fid] by (simp add: holding_def)
  have ex1: "spec_grantMatches ''pro.squads.*'' ''pro.squads.premium''"
    by (simp add: spec_grantMatches_def endsWith_def startsWith_def)
  have ex2: "\<not> spec_grantMatches ''pro.squads.*'' ''pro.squadcraft''"
    by (simp add: spec_grantMatches_def endsWith_def startsWith_def)
  show ?thesis
    using memo [of g featureId] loaded one ex1 ex2
    by (simp add: spec_grantMatches_def)
qed

theorem wildcard_matching_witness:
  "gate_cache (holding ex_record [''pro.cli.analytics'']) \<noteq> None
   \<and> \<not> spec_isExpired ex_record day_ms
   \<and> features ex_record = Some [''pro.squads.*'', ''pro.cli.analytics'']
   \<and> endsWith ''pro.squads.*'' ''.*''
   \<and> \<not> endsWith ''pro.cli.analytics'' ''.*''
   \<and> fst (isAvailable spec_isExpired spec_isInGracePeriod day_ms (Some ex_record)
        new_FeatureGate ''pro.squads.premium'')
   \<and> \<not> fst (isAvailable spec_isExpired spec_isInGracePeriod day_ms (Some ex_record)
        new_FeatureGate ''pro.squadcraft'')
   \<and> \<not> fst (isAvailable spec_isExpired spec_isInGracePeriod day_ms (Some ex_record)
        (holding ex_record [''pro.cli.analytics'']) ''pro.cli.analytics.daily'')"
  using
    wildcard_matching [where g = "holding ex_record [''pro.cli.analytics'']"
      and isExp = spec_isExpired and inGrace = spec_isInGracePeriod and now = day_ms
      and disk = "Some ex_record" and featureId = "''pro.squads.premium''"
      and c = ex_record and fs = "[''pro.squads.*'', ''pro.cli.analytics'']"
      and grant = "''pro.squads.*''"]
    wildcard_matching [where g = "holding ex_record [''pro.cli.analytics'']"
      and isExp = spec_isExpired and inGrace = spec_isInGracePeriod and now = day_ms
      and disk = "Some ex_record" and featureId = "''pro.cli.analytics.daily''"
      and c = ex_record and fs = "[''pro.squads.*'', ''pro.cli.analytics'']"
      and grant = "''pro.cli.analytics''"]
  by (simp add: spec_expiryBoundary_def spec_isExpired_def spec_isInGracePeriod_def
      isAvailable_def loadCache_def matchWildcard_def has_def new_Set_def set_add_def
      endsWith_def startsWith_def slice_def ex_record_def new_FeatureGate_def day_ms_def
      holding_def)

text \<open>
  Claim C3 at a failing input. The record that the validation of day 40 writes has
  \<open>lastValidated\<close> at day 40, so its expiry boundary is day 70 and on day 41 it has 29
  days left and is not expired. The status command computes the expiry date from
  \<open>activatedAt\<close> alone: day 30, printed as expired.
\<close>

theorem status_ignores_lastValidated:
  "written (trace_of (validateAction ex_host ex_world)) = [ex_revalidated]
   \<and> status_cacheLine ex_revalidated (41 * day_ms) = Some (ExpiredOn (30 * day_ms))
   \<and> status_expiryDate ex_revalidated = Some (30 * day_ms)
   \<and> spec_expiryBoundary ex_revalidated = Some (70 * day_ms)
   \<and> spec_daysRemaining ex_revalidated (41 * day_ms) = Some 29
   \<and> \<not> spec_isExpired ex_revalidated (41 * day_ms)"
  by (simp add: validateAction_def readLicenseCache_def writeLicenseCache_def reload_def
      trace_of_def Let_def ex_host_def ex_world_def ex_record_def ex_validate_ok_def
      ex_revalidated_def new_FeatureGate_def day_ms_def spec_expiryBoundary_def
      spec_isExpired_def spec_daysRemaining_def status_cacheLine_def status_expiryDate_def
      or_default_def)

text \<open>
  Claim C4. Every record that the activation writes has no \<open>lastValidated\<close>, and a
  successful activation writes one; every record that the validation writes has
  \<open>lastValidated\<close> equal to the clock reading, and a successful validation writes one,
  which is on disk afterwards when the write succeeds. When the value on disk is not
  later than the clock reading, the value on disk after the validation is not earlier
  than the value before.
\<close>

theorem lastValidated_lifecycle:
  "(\<forall>r \<in> set (written (trace_of (activateAction h opt_key w))).
       lastValidated r = None)
   \<and> (k \<noteq> [] \<longrightarrow> validateKeyFormat h k \<longrightarrow> activate_response h = Inr res \<longrightarrow>
        (\<exists>r. written (trace_of (activateAction h (Some k) w)) = [r]
              \<and> key r = key res \<and> lastValidated r = None))
   \<and> (\<forall>r \<in> set (written (trace_of (validateAction h w))).
         lastValidated r = Some (clock h))
   \<and> (disk_cache w = Some c \<longrightarrow> validate_response h = Inr v \<longrightarrow> valid v \<longrightarrow>
        (\<exists>r. written (trace_of (validateAction h w)) = [r]
              \<and> key r = key c \<and> lastValidated r = Some (clock h))
        \<and> (write_error h = None \<longrightarrow>
             lastValidated_on_disk (world_of (validateAction h w)) = Some (clock h)))
   \<and> (not_later (lastValidated_on_disk w) (Some (clock h)) \<longrightarrow>
        not_later (lastValidated_on_disk w)
          (lastValidated_on_disk (world_of (validateAction h w))))"
proof -
  have a1:
    "\<forall>r \<in> set (written (trace_of (activateAction h opt_key w))). lastValidated r = None"
    by (simp add: activateAction_def writeLicenseCache_def reload_def trace_of_def Let_def
        written_append split: option.splits sum.splits prod.splits)
  have a2:
    "\<exists>r. written (trace_of (activateAction h (Some k) w)) = [r]
          \<and> key r = key res \<and> lastValidated r = None"
    if "k \<noteq> []" "validateKeyFormat h k" "activate_response h = Inr res"
    using that
    by (simp add: activateAction_def writeLicenseCache_def reload_def trace_of_def Let_def
        written_append split: option.splits sum.splits prod.splits)
  have v1:
    "\<forall>r \<in> set (written (trace_of (validateAction h w))). lastValidated r = Some (clock h)"
    by (simp add: validateAction_def readLicenseCache_def writeLicenseCache_def reload_def
        trace_of_def Let_def written_append split: option.splits sum.splits prod.splits)
  have v2:
    "(\<exists>r. written (trace_of (validateAction h w)) = [r]
           \<and> key r = key c \<and> lastValidated r = Some (clock h))
     \<and> (write_error h = None \<longrightarrow>
          lastValidated_on_disk (world_of (validateAction h w)) = Some (clock h))"
    if "disk_cache w = Some c" "validate_response h = Inr v" "valid v"
    using that
    by (simp add: validateAction_def readLicenseCache_def writeLicenseCache_def reload_def
        trace_of_def world_of_def Let_def written_append lastValidated_on_disk_def
        split: option.splits sum.splits prod.splits)
  have v3:
    "not_later (lastValidated_on_disk w)
       (lastValidated_on_disk (world_of (validateAction h w)))"
    if "not_later (lastValidated_on_disk w) (Some (clock h))"
  proof -
    have refl: "not_later x x" for x by (cases x) simp_all
    show ?thesis
      using that refl [of "lastValidated_on_disk w"]
      by (auto simp: validateAction_def readLicenseCache_def writeLicenseCache_def
          reload_def world_of_def Let_def lastValidated_on_disk_def
          split: option.splits sum.splits prod.splits)
  qed
  show ?thesis using a1 a2 v1 v2 v3 by blast
qed

theorem lastValidated_lifecycle_witness:
  "key ex_record \<noteq> [] \<and> validateKeyFormat ex_host (key ex_record)
   \<and> activate_response ex_host = Inr ex_record
   \<and> written (trace_of (activateAction ex_host (Some (key ex_record)) ex_world))
       = [ex_record]
   \<and> lastValidated ex_record = None
   \<and> disk_cache ex_world = Some ex_record
   \<and> validate_response ex_host = Inr ex_validate_ok
   \<and> valid ex_validate_ok \<and> write_error ex_host = None
   \<and> written (trace_of (validateAction ex_host ex_world)) = [ex_revalidated]
   \<and> lastValidated ex_revalidated = Some (clock ex_host)
   \<and> lastValidated_on_disk (world_of (validateAction ex_host ex_world)) = Some (40 * day_ms)
   \<and> not_later (lastValidated_on_disk ex_world) (Some (clock ex_host))
   \<and> not_later (lastValidated_on_disk ex_world)
        (lastValidated_on_disk (world_of (validateAction ex_host ex_world)))"
  using
    lastValidated_lifecycle [where h = ex_host and opt_key = "Some (key ex_record)"
      and w = ex_world and k = "key ex_record" and res = ex_record
      and c = ex_record and v = ex_validate_ok]
  by (simp add: activateAction_def validateAction_def readLicenseCache_def
      writeLicenseCache_def reload_def trace_of_def world_of_def Let_def ex_host_def
      ex_world_def ex_record_def ex_validate_ok_def ex_revalidated_def new_FeatureGate_def
      day_ms_def lastValidated_on_disk_def spec_validateKeyFormat_def key_group_def
      alphanumeric_def)

text \<open>
  Claim C5. With a cached license, a \<^verbatim>\<open>valid:false\<close> answer makes the validation
  return normally after its single call to the authority; it writes nothing, deletes
  nothing, sets no pending deactivation and leaves the whole state as it was.
\<close>

theorem validate_rejected_is_inert:
  assumes "disk_cache w = Some c" and "validate_response h = Inr v" and "\<not> valid v"
  shows
    "validateAction h w =
       (Returned,
        [Console Validating, ApiValidate (key c) (machineId h), Console ValidationRejected],
        w)"
  using assms by (simp add: validateAction_def readLicenseCache_def)

theorem validate_rejected_is_inert_witness:
  "disk_cache ex_world = Some ex_record
   \<and> validate_response ex_host_rejecting = Inr ex_validate_rejected
   \<and> \<not> valid ex_validate_rejected
   \<and> validateAction ex_host_rejecting ex_world =
       (Returned,
        [Console Validating, ApiValidate ''PRO-AB12-CD34-EF56-GH78'' ''machine-1'',
         Console ValidationRejected],
        ex_world)"
  using
    validate_rejected_is_inert [of ex_world ex_record ex_host_rejecting ex_validate_rejected]
  by (simp add: ex_host_rejecting_def ex_host_def ex_validate_rejected_def ex_world_def
      ex_record_def)

text \<open>
  Claim C6. A deactivation that goes ahead (forced, or confirmed at the prompt) with a
  cached license: when the probe answers false, or the probe answers true and the
  authority's deactivate call fails, the pending record is set for the cached key and the
  cache is deleted in the same run, so that \<^verbatim>\<open>hasPendingDeactivation\<close> reports the key
  and the cache is absent; when the authority's deactivate call succeeds, the cache is
  deleted, no pending record is set and the pending slot is as it was.
\<close>

theorem deactivation_fallback:
  assumes "disk_cache w = Some c" and "force \<or> confirm_answer h"
  shows
    "(isOnline_response h = Inr False
        \<or> (isOnline_response h = Inr True \<and> deactivate_response h = Inl e)
      \<longrightarrow> outcome_of (deactivateAction h force w) = Returned
          \<and> SetPending (key c) \<in> set (trace_of (deactivateAction h force w))
          \<and> DeleteCache \<in> set (trace_of (deactivateAction h force w))
          \<and> pending (world_of (deactivateAction h force w)) = Some (key c, clock h)
          \<and> hasPendingDeactivation (world_of (deactivateAction h force w))
              = (True, Some (key c))
          \<and> disk_cache (world_of (deactivateAction h force w)) = None)
     \<and> (isOnline_response h = Inr True \<and> deactivate_response h = Inr ()
        \<longrightarrow> outcome_of (deactivateAction h force w) = Returned
            \<and> ApiDeactivate (key c) (machineId h)
                \<in> set (trace_of (deactivateAction h force w))
            \<and> DeleteCache \<in> set (trace_of (deactivateAction h force w))
            \<and> (\<forall>k. SetPending k \<notin> set (trace_of (deactivateAction h force w)))
            \<and> pending (world_of (deactivateAction h force w)) = pending w
            \<and> disk_cache (world_of (deactivateAction h force w)) = None)"
  using assms
  by (auto simp: deactivateAction_def readLicenseCache_def deleteLicenseCache_def
      setPendingDeactivation_def reload_def hasPendingDeactivation_def outcome_of_def
      trace_of_def world_of_def Let_def)

theorem deactivation_fallback_witness:
  "disk_cache ex_world = Some ex_record \<and> confirm_answer ex_host_offline
   \<and> isOnline_response ex_host_offline = Inr False
   \<and> hasPendingDeactivation (world_of (deactivateAction ex_host_offline False ex_world))
       = (True, Some ''PRO-AB12-CD34-EF56-GH78'')
   \<and> disk_cache (world_of (deactivateAction ex_host_offline False ex_world)) = None
   \<and> isOnline_response ex_host = Inr True \<and> deactivate_response ex_host = Inr ()
   \<and> hasPendingDeactivation (world_of (deactivateAction ex_host True ex_world))
       = (False, None)
   \<and> disk_cache (world_of (deactivateAction ex_host True ex_world)) = None"
  using
    deactivation_fallback [of ex_world ex_record False ex_host_offline]
    deactivation_fallback [of ex_world ex_record True ex_host]
  by (simp add: ex_host_offline_def ex_host_def ex_world_def ex_record_def
      hasPendingDeactivation_def)


text \<open>
  Claim C8 fails for the empty key: it does not pass the format check, and the activation
  exits with the key-required error, not with the format error.
\<close>

theorem empty_key_counterexample:
  "\<not> spec_validateKeyFormat []
   \<and> \<not> validateKeyFormat ex_host []
   \<and> activateAction ex_host (Some []) ex_world_empty
       = (Exited 1, [Console KeyRequired], ex_world_empty)
   \<and> Console InvalidKeyFormat
       \<notin> set (trace_of (activateAction ex_host (Some []) ex_world_empty))"
  by (simp add: activateAction_def trace_of_def ex_host_def spec_validateKeyFormat_def)

text \<open>
  Claim C8, amended. For a missing or empty key the activation exits with status 1 and
  the key-required error; for a non-empty key that fails \<^verbatim>\<open>validateKeyFormat\<close> it exits
  with status 1 and the format error. In both cases nothing else happens: no call to the
  authority, no cache write, and the state is unchanged. A run that calls the authority
  or writes the cache had a non-empty key that passed the format check.
\<close>

theorem malformed_key_stays_local:
  "(opt_key = None \<or> opt_key = Some [] \<longrightarrow>
      activateAction h opt_key w = (Exited 1, [Console KeyRequired], w))
   \<and> (k \<noteq> [] \<longrightarrow> \<not> validateKeyFormat h k \<longrightarrow>
        activateAction h (Some k) w = (Exited 1, [Console InvalidKeyFormat], w))
   \<and> ((\<exists>e \<in> set (trace_of (activateAction h opt_key w)). is_authority_call e)
        \<or> written (trace_of (activateAction h opt_key w)) \<noteq> []
      \<longrightarrow> (\<exists>k'. opt_key = Some k' \<and> k' \<noteq> [] \<and> validateKeyFormat h k'))"
  by (auto simp: activateAction_def writeLicenseCache_def reload_def trace_of_def Let_def
      split: option.splits sum.splits prod.splits if_splits)

theorem malformed_key_stays_local_witness:
  "''PRO-12'' \<noteq> [] \<and> \<not> validateKeyFormat ex_host ''PRO-12''
   \<and> activateAction ex_host (Some ''PRO-12'') ex_world_empty
       = (Exited 1, [Console InvalidKeyFormat], ex_world_empty)
   \<and> activateAction ex_host None ex_world_empty
       = (Exited 1, [Console KeyRequired], ex_world_empty)
   \<and> (\<exists>e \<in> set (trace_of (activateAction ex_host (Some (key ex_record)) ex_world_empty)).
         is_authority_call e)
   \<and> validateKeyFormat ex_host (key ex_record)"
  using
    malformed_key_stays_local [of None ex_host ex_world_empty "''PRO-12''"]
    malformed_key_stays_local [of "Some (key ex_record)" ex_host ex_world_empty "''PRO-12''"]
  by (simp add: activateAction_def writeLicenseCache_def reload_def trace_of_def Let_def
      ex_host_def ex_world_empty_def ex_record_def spec_validateKeyFormat_def key_group_def
      alphanumeric_def)

text \<open>
  Claim C9. In every run of activate, deactivate and validate, each write or delete of
  the cache is followed by a reload of the feature gate before the run ends. After a run
  that wrote or deleted the cache the gate holds no snapshot, so its next decision is the
  decision of a fresh gate on the storage as the run left it.
\<close>

theorem reload_after_cache_mutation:
  "reload_follows (trace_of (run_command h cmd w))
   \<and> (mutates_cache (trace_of (run_command h cmd w)) \<longrightarrow>
        GateReload \<in> set (trace_of (run_command h cmd w))
        \<and> gate_cache (gate (world_of (run_command h cmd w))) = None
        \<and> isAvailable isExp inGrace now (disk_cache (world_of (run_command h cmd w)))
              (gate (world_of (run_command h cmd w))) featureId
          = isAvailable isExp inGrace now (disk_cache (world_of (run_command h cmd w)))
              new_FeatureGate featureId)"
proof -
  have "reload_follows (trace_of (run_command h cmd w))
    \<and> (mutates_cache (trace_of (run_command h cmd w)) \<longrightarrow>
         GateReload \<in> set (trace_of (run_command h cmd w))
         \<and> gate_cache (gate (world_of (run_command h cmd w))) = None)"
    using activate_reloads deactivate_reloads validate_reloads by (cases cmd) simp_all
  then show ?thesis
    using isAvailable_no_snapshot [of "gate (world_of (run_command h cmd w))"] by blast
qed

theorem reload_after_cache_mutation_witness:
  "mutates_cache (trace_of (run_command ex_host (Activate (Some (key ex_record)))
      ex_world_empty))
   \<and> reload_follows (trace_of (run_command ex_host (Activate (Some (key ex_record)))
        ex_world_empty))
   \<and> mutates_cache (trace_of (run_command ex_host (Deactivate True) ex_world))
   \<and> gate_cache (gate (world_of (run_command ex_host (Deactivate True) ex_world))) = None
   \<and> mutates_cache (trace_of (run_command ex_host Validate ex_world))
   \<and> GateReload \<in> set (trace_of (run_command ex_host Validate ex_world))
   \<and> fst (isAvailable spec_isExpired spec_isInGracePeriod (41 * day_ms)
            (disk_cache (world_of (run_command ex_host Validate ex_world)))
            (gate (world_of (run_command ex_host Validate ex_world))) ''pro.squads.premium'')"
  using
    reload_after_cache_mutation [of ex_host "Activate (Some (key ex_record))" ex_world_empty]
    reload_after_cache_mutation [of ex_host "Deactivate True" ex_world]
    reload_after_cache_mutation [of ex_host Validate ex_world spec_isExpired
      spec_isInGracePeriod "41 * day_ms" "''pro.squads.premium''"]
  by (simp add: activateAction_def validateAction_def deactivateAction_def
      readLicenseCache_def deleteLicenseCache_def setPendingDeactivation_def reload_def
      writeLicenseCache_def trace_of_def world_of_def Let_def ex_host_def ex_world_def
      ex_world_empty_def ex_record_def ex_validate_ok_def new_FeatureGate_def day_ms_def
      mutates_cache_def spec_validateKeyFormat_def key_group_def alphanumeric_def
      spec_expiryBoundary_def spec_isExpired_def spec_isInGracePeriod_def isAvailable_def
      loadCache_def matchWildcard_def has_def new_Set_def set_add_def endsWith_def
      startsWith_def slice_def)

text \<open>
  Claim C10. Without a license cache the deactivation reports that no license is
  activated and returns: no probe, no call to the authority, no pending record, no
  deletion, no reload, and the state is unchanged.
\<close>

theorem deactivate_without_cache:
  assumes "disk_cache w = None"
  shows "deactivateAction h force w = (Returned, [Console NoLicense], w)"
  using assms by (simp add: deactivateAction_def readLicenseCache_def)

theorem deactivate_without_cache_witness:
  "disk_cache ex_world_empty = None
   \<and> deactivateAction ex_host True ex_world_empty
       = (Returned, [Console NoLicense], ex_world_empty)"
  using deactivate_without_cache [of ex_world_empty ex_host True]
  by (simp add: ex_world_empty_def)

end
